theory Spec2Isabelle
  imports Complex_Main "HOL-Library.Sublist"
begin

section \<open>Decimal rendering of integers\<close>

text \<open>
  Python's \<open>str(n)\<close> and \<open>f"{n}"\<close> on an \<open>int\<close>: the decimal digits, with a leading
  minus sign for a negative number.
\<close>

definition digit_char :: "nat \<Rightarrow> char" where
  "digit_char d = char_of (48 + d)"

fun str_nat :: "nat \<Rightarrow> string" where
  "str_nat n = (if n < 10 then [digit_char n] else str_nat (n div 10) @ [digit_char (n mod 10)])"

declare str_nat.simps [simp del]

definition str_int :: "int \<Rightarrow> string" where
  "str_int i = (if i < 0 then CHR ''-'' # str_nat (nat (- i)) else str_nat (nat i))"

section \<open>socket\_wait.py\<close>

text \<open>
  The outside world of the port waiter is the sequence of values that successive calls of
  \<open>s.connect_ex((host, port))\<close> return: \<open>rc k\<close> is the errno of attempt number \<open>k\<close>
  (counted from 0), and 0 means that the connection was made; a refused connection, a timeout
  and an unreachable host are non-zero values. What the process does is recorded as a trace
  of events. An exception of the socket calls (a host name that does not resolve) is not the
  outcome of a connection attempt and is outside the model.
\<close>

datatype wait_event = Print string | Connect string int | Sleep nat

text \<open>\<open>is_port_open\<close>: \<open>return s.connect_ex((host, port)) == 0\<close>.\<close>

definition is_port_open :: "int \<Rightarrow> bool" where
  "is_port_open errno = (errno = 0)"

text \<open>
  The loop \<open>while is_port_open(host, port): time.sleep(check_interval)\<close>. It has no bound:
  when every attempt succeeds it never returns, which is the value \<open>None\<close>.
\<close>

partial_function (option) poll_loop ::
  "(nat \<Rightarrow> int) \<Rightarrow> string \<Rightarrow> int \<Rightarrow> nat \<Rightarrow> nat \<Rightarrow> wait_event list \<Rightarrow> wait_event list option" where
  "poll_loop rc host port check_interval k tr =
     (if is_port_open (rc k)
      then poll_loop rc host port check_interval (Suc k) (tr @ [Connect host port, Sleep check_interval])
      else Some (tr @ [Connect host port]))"

text \<open>\<open>wait_while_port_open(host, port, check_interval=5)\<close>; the script calls it with the default interval.\<close>

definition wait_while_port_open :: "(nat \<Rightarrow> int) \<Rightarrow> string \<Rightarrow> int \<Rightarrow> nat \<Rightarrow> wait_event list option" where
  "wait_while_port_open rc host port check_interval =
     (case poll_loop rc host port check_interval 0
             [Print (''Waiting while port '' @ str_int port @ '' on '' @ host @ '' is open...'')] of
        None \<Rightarrow> None
      | Some tr \<Rightarrow> Some (tr @ [Print (''Port '' @ str_int port @ '' on '' @ host @ '' is now closed.'')]))"

definition socket_wait_main :: "(nat \<Rightarrow> int) \<Rightarrow> string \<Rightarrow> int \<Rightarrow> wait_event list option" where
  "socket_wait_main rc remote_ip remote_port = wait_while_port_open rc remote_ip remote_port 5"

text \<open>The number of sleeps in a trace.\<close>

definition sleeps :: "wait_event list \<Rightarrow> nat" where
  "sleeps tr = length (filter (\<lambda>e. case e of Sleep _ \<Rightarrow> True | _ \<Rightarrow> False) tr)"

section \<open>benchmark\_parser.py: text, numbers and exceptions\<close>

text \<open>
  A text is a \<open>string\<close>, one \<open>char\<close> for each code point; the model covers the code
  points below 256. On these, \<open>\d\<close> of Python's \<open>re\<close> is the ten ASCII digits and \<open>\s\<close> is
  the characters for which \<open>str.isspace\<close> holds: 9 to 13, 28 to 32, 133 and 160.
\<close>

definition is_digit :: "char \<Rightarrow> bool" where
  "is_digit c = (48 \<le> (of_char c :: nat) \<and> (of_char c :: nat) \<le> 57)"

definition is_space :: "char \<Rightarrow> bool" where
  "is_space c = ((of_char c :: nat) \<in> set [9, 10, 11, 12, 13, 28, 29, 30, 31, 32, 133, 160])"

definition is_comma :: "char \<Rightarrow> bool" where
  "is_comma c = (c = CHR '','')"

definition is_dot :: "char \<Rightarrow> bool" where
  "is_dot c = (c = CHR ''.'')"

text \<open>
  The exceptions that can occur, each with its message; all derive from \<open>Exception\<close>.
  \<open>OtherException\<close> stands for any other exception that reading the log or writing the CSV
  file may raise. \<open>str_exn e\<close> is the text that \<open>f"{e}"\<close> puts into a report.
\<close>

datatype exn =
    FileNotFoundError string
  | PermissionError string
  | OtherException string
  | ValueError string
  | IndexError string
  | KeyError string

fun str_exn :: "exn \<Rightarrow> string" where
  "str_exn (FileNotFoundError m) = m"
| "str_exn (PermissionError m) = m"
| "str_exn (OtherException m) = m"
| "str_exn (ValueError m) = m"
| "str_exn (IndexError m) = m"
| "str_exn (KeyError m) = m"

text \<open>Sequencing of computations that may raise: the first exception ends the computation.\<close>

definition ebind :: "exn + 'a \<Rightarrow> ('a \<Rightarrow> exn + 'b) \<Rightarrow> exn + 'b" where
  "ebind m f = (case m of Inl e \<Rightarrow> Inl e | Inr x \<Rightarrow> f x)"

text \<open>\<open>s.replace(',', '')\<close>.\<close>

definition strip_commas :: "string \<Rightarrow> string" where
  "strip_commas s = filter (\<lambda>c. \<not> is_comma c) s"

text \<open>
  A text between single quotes, as in \<open>f"'{s}'"\<close>; for a text of digits, dots or letters
  this is also \<open>repr(s)\<close>.
\<close>

definition quoted :: "string \<Rightarrow> string" where
  "quoted s = [CHR 0x27] @ s @ [CHR 0x27]"

text \<open>The value of a text of decimal digits, most significant digit first.\<close>

definition digit_val :: "char \<Rightarrow> nat" where
  "digit_val c = of_char c - 48"

definition dec_value :: "string \<Rightarrow> nat" where
  "dec_value s = foldl (\<lambda>acc c. 10 * acc + digit_val c) 0 s"

text \<open>
  \<open>int(s)\<close>. The program calls it on a match of \<open>\d+\<close>, or on a match of \<open>[\d,]+\<close> with the
  commas removed, so on digits only: a non-empty text of digits has its decimal value (Python's
  integers are unbounded), and the empty text raises \<open>ValueError\<close>. The limit that recent
  versions of Python put on the number of digits that \<open>int\<close> converts is left out.
\<close>

definition py_int :: "string \<Rightarrow> exn + int" where
  "py_int s =
     (if s \<noteq> [] \<and> list_all is_digit s then Inr (int (dec_value s))
      else Inl (ValueError (''invalid literal for int() with base 10: '' @ quoted s)))"

text \<open>
  Floating-point numbers are a type parameter \<open>'f\<close> with the operations the program uses:
  \<open>of_decimal q\<close> is the float that \<open>float\<close> returns for a decimal literal of exact value \<open>q\<close>
  (the nearest binary64 number), \<open>isnan\<close> tells a NaN, \<open>format_2f x\<close> is \<open>f"{x:.2f}"\<close>, and
  \<open>to_int x\<close> is \<open>int(x)\<close>.
\<close>

record 'f float_ops =
  of_decimal :: "rat \<Rightarrow> 'f"
  isnan :: "'f \<Rightarrow> bool"
  format_2f :: "'f \<Rightarrow> string"
  to_int :: "'f \<Rightarrow> int"

text \<open>
  The exact value of a decimal literal made of digits and at most one dot: the digits before
  the dot, plus the digits after it scaled by their number.
\<close>

definition dec_rat :: "string \<Rightarrow> rat" where
  "dec_rat s =
     (let ip = takeWhile (\<lambda>c. \<not> is_dot c) s;
          fp = drop 1 (dropWhile (\<lambda>c. \<not> is_dot c) s)
      in of_nat (dec_value ip) + of_nat (dec_value fp) / 10 ^ length fp)"

text \<open>
  \<open>float(s)\<close>. The program calls it on a match of \<open>[\d,\.]+\<close> with the commas removed, so on
  digits and dots only: such a text is a float literal when it has at least one digit and at
  most one dot, and raises \<open>ValueError\<close> otherwise.
\<close>

definition float_literal :: "string \<Rightarrow> bool" where
  "float_literal s =
     (list_all (\<lambda>c. is_digit c \<or> is_dot c) s \<and> list_ex is_digit s \<and> length (filter is_dot s) \<le> 1)"

definition py_float :: "'f float_ops \<Rightarrow> string \<Rightarrow> exn + 'f" where
  "py_float F s =
     (if float_literal s then Inr (of_decimal F (dec_rat s))
      else Inl (ValueError (''could not convert string to float: '' @ quoted s)))"

section \<open>benchmark\_parser.py: the regular expressions\<close>

text \<open>
  Every pattern of the program is a sequence of literal texts and of greedy repetitions
  \<open>C+\<close> of a character class, some of them capture groups. \<open>match_at\<close> matches such a
  sequence at the start of a text as the backtracking matcher of \<open>re\<close> does: a repetition
  first takes the longest run of its class and gives characters back one at a time, down to
  one, until the rest of the pattern matches. The result is the texts of the capture groups.
\<close>

datatype item = Lit string | Plus "char \<Rightarrow> bool" | Group "char \<Rightarrow> bool"

fun first_some :: "('a \<Rightarrow> 'b option) \<Rightarrow> 'a list \<Rightarrow> 'b option" where
  "first_some f [] = None"
| "first_some f (x # xs) = (case f x of Some y \<Rightarrow> Some y | None \<Rightarrow> first_some f xs)"

text \<open>The lengths a repetition of class \<open>c\<close> tries on the text \<open>s\<close>, longest first.\<close>

definition run_lengths :: "(char \<Rightarrow> bool) \<Rightarrow> string \<Rightarrow> nat list" where
  "run_lengths c s = rev [1 ..< Suc (length (takeWhile c s))]"

fun match_at :: "item list \<Rightarrow> string \<Rightarrow> string list option" where
  "match_at [] s = Some []"
| "match_at (Lit l # ps) s = (if prefix l s then match_at ps (drop (length l) s) else None)"
| "match_at (Plus c # ps) s = first_some (\<lambda>n. match_at ps (drop n s)) (run_lengths c s)"
| "match_at (Group c # ps) s =
     first_some (\<lambda>n. map_option (\<lambda>gs. take n s # gs) (match_at ps (drop n s))) (run_lengths c s)"

text \<open>\<open>re.search\<close>: the match at the leftmost position of the text that has one.\<close>

fun search :: "item list \<Rightarrow> string \<Rightarrow> string list option" where
  "search ps [] = match_at ps []"
| "search ps (c # cs) = (case match_at ps (c # cs) of Some gs \<Rightarrow> Some gs | None \<Rightarrow> search ps cs)"

text \<open>\<open>m.group(i)\<close>, for \<open>i\<close> from 1.\<close>

definition match_group :: "string list \<Rightarrow> nat \<Rightarrow> exn + string" where
  "match_group gs i = (if 1 \<le> i \<and> i \<le> length gs then Inr (gs ! (i - 1)) else Inl (IndexError ''no such group''))"

text \<open>
  \<open>re.split(r'\[RUNNING\]', content)\<close>: the pieces of the text between the occurrences of
  the marker, found from the left without overlap.
\<close>

function split_on :: "string \<Rightarrow> string \<Rightarrow> string \<Rightarrow> string list" where
  "split_on m acc [] = [rev acc]"
| "split_on m acc (c # cs) =
     (if m \<noteq> [] \<and> prefix m (c # cs) then rev acc # split_on m [] (drop (length m - 1) cs)
      else split_on m (c # acc) cs)"
  by pat_completeness auto
termination
  by (relation "measure (\<lambda>(m, acc, s). length s)") auto

definition re_split :: "string \<Rightarrow> string \<Rightarrow> string list" where
  "re_split m s = split_on m [] s"

section \<open>benchmark\_parser.py: parse\_benchmark\_log\<close>

text \<open>The dictionary that \<open>results.append\<close> builds, one field for each key, in the order written.\<close>

record 'f BenchmarkRun =
  Model :: string
  xP_yD :: string
  ISL :: int
  OSL :: int
  Concurrency :: int
  Prompts_Group :: "int option"
  Total_Prompts :: "int option"
  Total_Input_Tokens :: "int option"
  Total_Output_Tokens :: "int option"
  Request_Throughput_req_s :: "'f option"
  Input_Token_Throughput_tok_s :: "'f option"
  Output_Token_Throughput_tok_s :: "'f option"
  Total_Token_Throughput_tok_s :: "'f option"
  Mean_E2E_Latency_ms :: "'f option"
  Mean_TTFT_ms :: "'f option"
  Mean_ITL_ms :: "'f option"

text \<open>The character classes \<open>[^\s]\<close>, \<open>[\d,]\<close>, \<open>[\d\.]\<close> and \<open>[\d,\.]\<close>.\<close>

definition non_space :: "char \<Rightarrow> bool" where
  "non_space c = (\<not> is_space c)"

definition digit_comma :: "char \<Rightarrow> bool" where
  "digit_comma c = (is_digit c \<or> is_comma c)"

definition digit_dot :: "char \<Rightarrow> bool" where
  "digit_dot c = (is_digit c \<or> is_dot c)"

definition digit_comma_dot :: "char \<Rightarrow> bool" where
  "digit_comma_dot c = (is_digit c \<or> is_comma c \<or> is_dot c)"

text \<open>
  The pattern of the \<open>[RUNNING]\<close> line:
  \<open>prompts\s+isl\s+(\d+)\s+osl\s+(\d+)\s+con\s+(\d+)\s+model\s+([^\s]+)\s+xP=(\d+)\s+yD=(\d+)\<close>.
\<close>

definition header_pattern :: "item list" where
  "header_pattern =
     [Lit ''prompts'', Plus is_space, Lit ''isl'', Plus is_space, Group is_digit, Plus is_space,
      Lit ''osl'', Plus is_space, Group is_digit, Plus is_space,
      Lit ''con'', Plus is_space, Group is_digit, Plus is_space,
      Lit ''model'', Plus is_space, Group non_space, Plus is_space,
      Lit ''xP='', Group is_digit, Plus is_space, Lit ''yD='', Group is_digit]"

text \<open>The pattern of a labelled value, \<open>label\s+(C+)\<close>.\<close>

definition field_pattern :: "string \<Rightarrow> (char \<Rightarrow> bool) \<Rightarrow> item list" where
  "field_pattern label c = [Lit label, Plus is_space, Group c]"

definition result_marker :: string where
  "result_marker = ''============ Serving Benchmark Result ============''"

text \<open>
  The dataset statistics: \<open>int(m.group(1))\<close> for the two prompt counts,
  \<open>int(m.group(1).replace(',', ''))\<close> for the two token counts, \<open>None\<close> without a match.
\<close>

definition find_int :: "string \<Rightarrow> string \<Rightarrow> exn + int option" where
  "find_int label run =
     (case search (field_pattern label is_digit) run of
        None \<Rightarrow> Inr None
      | Some gs \<Rightarrow> ebind (match_group gs 1) (\<lambda>g. ebind (py_int g) (\<lambda>v. Inr (Some v))))"

definition find_int_commas :: "string \<Rightarrow> string \<Rightarrow> exn + int option" where
  "find_int_commas label run =
     (case search (field_pattern label digit_comma) run of
        None \<Rightarrow> Inr None
      | Some gs \<Rightarrow> ebind (match_group gs 1) (\<lambda>g. ebind (py_int (strip_commas g)) (\<lambda>v. Inr (Some v))))"

text \<open>
  The local function \<open>extract(pattern)\<close> (named \<open>extract_metric\<close> here):
  \<open>float(m.group(1).replace(',', '')) if m else None\<close>.
\<close>

definition extract_metric :: "'f float_ops \<Rightarrow> string \<Rightarrow> item list \<Rightarrow> exn + 'f option" where
  "extract_metric F run pattern =
     (case search pattern run of
        None \<Rightarrow> Inr None
      | Some gs \<Rightarrow>
          ebind (match_group gs 1) (\<lambda>g. ebind (py_float F (strip_commas g)) (\<lambda>v. Inr (Some v))))"

text \<open>
  The body of the loop over the runs. \<open>Inr None\<close> is a run that adds no record (the
  \<open>continue\<close> after a failed header match, or a run without the result marker), \<open>Inr (Some r)\<close>
  is the record appended, \<open>Inl e\<close> is an exception raised by a conversion.
\<close>

definition parse_run :: "'f float_ops \<Rightarrow> string \<Rightarrow> exn + 'f BenchmarkRun option" where
  "parse_run F run =
     (case search header_pattern run of
        None \<Rightarrow> Inr None
      | Some gs \<Rightarrow>
          ebind (ebind (match_group gs 1) py_int) (\<lambda>question_len.
          ebind (ebind (match_group gs 2) py_int) (\<lambda>output_len.
          ebind (ebind (match_group gs 3) py_int) (\<lambda>concurrency.
          ebind (match_group gs 4) (\<lambda>model.
          ebind (ebind (match_group gs 5) py_int) (\<lambda>xp.
          ebind (ebind (match_group gs 6) py_int) (\<lambda>yd.
          ebind (find_int ''Prompts per group:'' run) (\<lambda>prompts_per_group.
          ebind (find_int ''Total prompts:'' run) (\<lambda>total_prompts.
          ebind (find_int_commas ''Total input tokens:'' run) (\<lambda>total_input_tokens.
          ebind (find_int_commas ''Total output tokens:'' run) (\<lambda>total_output_tokens.
          if sublist result_marker run then
            ebind (extract_metric F run (field_pattern ''Successful requests:'' digit_comma)) (\<lambda>successful_requests.
            ebind (extract_metric F run (field_pattern ''Benchmark duration (s):'' digit_dot)) (\<lambda>duration.
            ebind (extract_metric F run (field_pattern ''Request throughput (req/s):'' digit_dot)) (\<lambda>req_throughput.
            ebind (extract_metric F run (field_pattern ''Input token throughput (tok/s):'' digit_comma_dot)) (\<lambda>input_tok_throughput.
            ebind (extract_metric F run (field_pattern ''Output token throughput (tok/s):'' digit_comma_dot)) (\<lambda>output_tok_throughput.
            ebind (extract_metric F run (field_pattern ''Total token throughput (tok/s):'' digit_comma_dot)) (\<lambda>total_tok_throughput.
            ebind (extract_metric F run (field_pattern ''Mean E2E Latency (ms):'' digit_comma_dot)) (\<lambda>mean_e2e.
            ebind (extract_metric F run (field_pattern ''Mean TTFT (ms):'' digit_comma_dot)) (\<lambda>mean_ttft.
            ebind (extract_metric F run (field_pattern ''Mean ITL (ms):'' digit_comma_dot)) (\<lambda>mean_itl.
            Inr (Some \<lparr>Model = model,
                       xP_yD = str_int xp @ ''p'' @ str_int yd @ ''d'',
                       ISL = question_len,
                       OSL = output_len,
                       Concurrency = concurrency,
                       Prompts_Group = prompts_per_group,
                       Total_Prompts = total_prompts,
                       Total_Input_Tokens = total_input_tokens,
                       Total_Output_Tokens = total_output_tokens,
                       Request_Throughput_req_s = req_throughput,
                       Input_Token_Throughput_tok_s = input_tok_throughput,
                       Output_Token_Throughput_tok_s = output_tok_throughput,
                       Total_Token_Throughput_tok_s = total_tok_throughput,
                       Mean_E2E_Latency_ms = mean_e2e,
                       Mean_TTFT_ms = mean_ttft,
                       Mean_ITL_ms = mean_itl\<rparr>))))))))))
          else Inr None)))))))))))"

text \<open>The loop \<open>for run in runs\<close>, with the list \<open>results\<close> it appends to.\<close>

fun parse_loop :: "'f float_ops \<Rightarrow> 'f BenchmarkRun list \<Rightarrow> string list \<Rightarrow> exn + 'f BenchmarkRun list" where
  "parse_loop F results [] = Inr results"
| "parse_loop F results (run # runs) =
     (case parse_run F run of
        Inl e \<Rightarrow> Inl e
      | Inr None \<Rightarrow> parse_loop F results runs
      | Inr (Some r) \<Rightarrow> parse_loop F (results @ [r]) runs)"

text \<open>The runs of a log: \<open>re.split(r'\[RUNNING\]', content)[1:]\<close>.\<close>

definition runs_of :: "string \<Rightarrow> string list" where
  "runs_of content = drop 1 (re_split ''[RUNNING]'' content)"

definition parse_content :: "'f float_ops \<Rightarrow> string \<Rightarrow> exn + 'f BenchmarkRun list" where
  "parse_content F content = parse_loop F [] (runs_of content)"

text \<open>
  \<open>parse_benchmark_log(logfile)\<close>. \<open>read_text path\<close> is what \<open>open(path, 'r')\<close> followed by
  \<open>f.read()\<close> gives in the file system the program runs in: the text, or the exception raised.
\<close>

definition parse_benchmark_log ::
  "'f float_ops \<Rightarrow> (string \<Rightarrow> exn + string) \<Rightarrow> string \<Rightarrow> exn + 'f BenchmarkRun list" where
  "parse_benchmark_log F read_text logfile = ebind (read_text logfile) (parse_content F)"

section \<open>benchmark\_parser.py: the table\<close>

text \<open>
  A cell of a table holds a text, an integer, a float or \<open>None\<close>. A table is its column
  labels and its rows, each row with one cell for each column. How pandas stores a column
  (its dtype) and how it prints or serialises a cell is outside the model: the screen and the
  CSV file receive the table itself.
\<close>

datatype 'f cell = CStr string | CInt int | CFloat 'f | CNone

record 'f DataFrame =
  columns :: "string list"
  rows :: "'f cell list list"

text \<open>The keys of the dictionary of a record, in the order written, and its values.\<close>

definition record_keys :: "string list" where
  "record_keys =
     [''Model'', ''xP_yD'', ''ISL'', ''OSL'', ''Concurrency'', ''Prompts_Group'', ''Total_Prompts'',
      ''Total_Input_Tokens'', ''Total_Output_Tokens'', ''Request_Throughput_req_s'',
      ''Input_Token_Throughput_tok_s'', ''Output_Token_Throughput_tok_s'',
      ''Total_Token_Throughput_tok_s'', ''Mean_E2E_Latency_ms'', ''Mean_TTFT_ms'', ''Mean_ITL_ms'']"

definition int_cell :: "int option \<Rightarrow> 'f cell" where
  "int_cell v = (case v of None \<Rightarrow> CNone | Some n \<Rightarrow> CInt n)"

definition float_cell :: "'f option \<Rightarrow> 'f cell" where
  "float_cell v = (case v of None \<Rightarrow> CNone | Some x \<Rightarrow> CFloat x)"

definition record_values :: "'f BenchmarkRun \<Rightarrow> 'f cell list" where
  "record_values r =
     [CStr (Model r), CStr (xP_yD r), CInt (ISL r), CInt (OSL r), CInt (Concurrency r),
      int_cell (Prompts_Group r), int_cell (Total_Prompts r),
      int_cell (Total_Input_Tokens r), int_cell (Total_Output_Tokens r),
      float_cell (Request_Throughput_req_s r), float_cell (Input_Token_Throughput_tok_s r),
      float_cell (Output_Token_Throughput_tok_s r), float_cell (Total_Token_Throughput_tok_s r),
      float_cell (Mean_E2E_Latency_ms r), float_cell (Mean_TTFT_ms r), float_cell (Mean_ITL_ms r)]"

text \<open>\<open>pd.DataFrame(results)\<close> for a non-empty list of records: one column for each key.\<close>

definition DataFrame_of :: "'f BenchmarkRun list \<Rightarrow> 'f DataFrame" where
  "DataFrame_of results = \<lparr>columns = record_keys, rows = map record_values results\<rparr>"

text \<open>
  \<open>df[labels]\<close> for a list of labels: the table of these columns in this order; pandas raises
  \<open>KeyError\<close> when a label is not a column of the table.
\<close>

definition select_row :: "string list \<Rightarrow> string list \<Rightarrow> 'f cell list \<Rightarrow> 'f cell list option" where
  "select_row cols labels row = those (map (map_of (zip cols row)) labels)"

definition getitem :: "'f DataFrame \<Rightarrow> string list \<Rightarrow> exn + 'f DataFrame" where
  "getitem df labels =
     (if list_all (\<lambda>l. l \<in> set (columns df)) labels
      then (case those (map (select_row (columns df) labels) (rows df)) of
              Some rs \<Rightarrow> Inr \<lparr>columns = labels, rows = rs\<rparr>
            | None \<Rightarrow> Inl (KeyError ''not in index''))
      else Inl (KeyError ''not in index''))"

section \<open>benchmark\_parser.py: format\_dataframe\<close>

text \<open>\<open>f"{n:,}"\<close>: the decimal digits in groups of three from the right.\<close>

fun group3 :: "string \<Rightarrow> string" where
  "group3 (a # b # c # d # rest) = a # b # c # CHR '','' # group3 (d # rest)"
| "group3 s = s"

definition format_comma :: "int \<Rightarrow> string" where
  "format_comma n =
     (if n < 0 then CHR ''-'' # rev (group3 (rev (str_nat (nat (- n)))))
      else rev (group3 (rev (str_nat (nat n)))))"

text \<open>\<open>pd.notna(x)\<close>: neither \<open>None\<close> nor a NaN.\<close>

definition notna :: "'f float_ops \<Rightarrow> 'f cell \<Rightarrow> bool" where
  "notna F x = (case x of CNone \<Rightarrow> False | CFloat v \<Rightarrow> \<not> isnan F v | _ \<Rightarrow> True)"

text \<open>
  \<open>lambda x: f"{x:.2f}" if pd.notna(x) else x\<close>. An integer is formatted as the float of the
  same value, and a text raises \<open>ValueError\<close>.
\<close>

definition format_numeric :: "'f float_ops \<Rightarrow> 'f cell \<Rightarrow> exn + 'f cell" where
  "format_numeric F x =
     (if notna F x then
        (case x of
           CFloat v \<Rightarrow> Inr (CStr (format_2f F v))
         | CInt n \<Rightarrow> Inr (CStr (format_2f F (of_decimal F (of_int n))))
         | CStr s \<Rightarrow> Inl (ValueError (''Unknown format code '' @ quoted ''f'' @
                                       '' for object of type '' @ quoted ''str''))
         | CNone \<Rightarrow> Inr x)
      else Inr x)"

text \<open>
  \<open>lambda x: f"{int(x):,}" if pd.notna(x) else x\<close>. For a text cell \<open>int\<close> is the conversion
  of \<open>py_int\<close>, which covers the texts of digits.
\<close>

definition format_integer :: "'f float_ops \<Rightarrow> 'f cell \<Rightarrow> exn + 'f cell" where
  "format_integer F x =
     (if notna F x then
        (case x of
           CInt n \<Rightarrow> Inr (CStr (format_comma n))
         | CFloat v \<Rightarrow> Inr (CStr (format_comma (to_int F v)))
         | CStr s \<Rightarrow> ebind (py_int s) (\<lambda>n. Inr (CStr (format_comma n)))
         | CNone \<Rightarrow> Inr x)
      else Inr x)"

fun emap :: "('a \<Rightarrow> exn + 'b) \<Rightarrow> 'a list \<Rightarrow> exn + 'b list" where
  "emap f [] = Inr []"
| "emap f (x # xs) = ebind (f x) (\<lambda>y. ebind (emap f xs) (\<lambda>ys. Inr (y # ys)))"

text \<open>\<open>df[col] = df[col].apply(f)\<close>.\<close>

definition apply_column :: "('f cell \<Rightarrow> exn + 'f cell) \<Rightarrow> string \<Rightarrow> 'f DataFrame \<Rightarrow> exn + 'f DataFrame" where
  "apply_column f col df =
     ebind (emap (\<lambda>row. emap (\<lambda>(c, x). if c = col then f x else Inr x) (zip (columns df) row)) (rows df))
       (\<lambda>rs. Inr (df\<lparr>rows := rs\<rparr>))"

text \<open>The loops \<open>for col in cols: if col in df.columns: ...\<close>.\<close>

fun format_columns :: "('f cell \<Rightarrow> exn + 'f cell) \<Rightarrow> string list \<Rightarrow> 'f DataFrame \<Rightarrow> exn + 'f DataFrame" where
  "format_columns f [] df = Inr df"
| "format_columns f (col # cols) df =
     (if col \<in> set (columns df) then ebind (apply_column f col df) (format_columns f cols)
      else format_columns f cols df)"

definition numeric_cols :: "string list" where
  "numeric_cols =
     [''Request Throughput (req/s)'', ''Input Token Throughput (tok/s)'',
      ''Output Token Throughput (tok/s)'', ''Total Token Throughput (tok/s)'',
      ''Mean E2E Latency (ms)'', ''Mean TTFT (ms)'', ''Mean ITL (ms)'']"

definition integer_cols :: "string list" where
  "integer_cols = [''Total Input Tokens'', ''Total Output Tokens'']"

definition format_dataframe :: "'f float_ops \<Rightarrow> 'f DataFrame \<Rightarrow> exn + 'f DataFrame" where
  "format_dataframe F df =
     ebind (format_columns (format_numeric F) numeric_cols df)
       (format_columns (format_integer F) integer_cols)"

section \<open>benchmark\_parser.py: main\<close>

text \<open>The parsed command line; \<open>csv\<close> is \<open>None\<close> without the option \<open>--csv\<close>.\<close>

record args =
  logfile :: string
  csv :: "string option"
  compact :: bool
  no_screen :: bool

text \<open>The truth value of \<open>args.csv\<close>: \<open>None\<close> and the empty text are false.\<close>

definition csv_given :: "args \<Rightarrow> bool" where
  "csv_given a = (case csv a of None \<Rightarrow> False | Some p \<Rightarrow> p \<noteq> [])"

definition csv_path :: "args \<Rightarrow> string" where
  "csv_path a = (case csv a of None \<Rightarrow> [] | Some p \<Rightarrow> p)"

text \<open>
  The file system the program runs in: what reading the log gives, and whether
  \<open>df.to_csv(path, index=False)\<close> raises.
\<close>

record 'f env =
  read_text :: "string \<Rightarrow> exn + string"
  to_csv :: "string \<Rightarrow> 'f DataFrame \<Rightarrow> exn option"

text \<open>
  What the program does, in order: lines printed to the two streams, the error report of the
  argument parser (the usage and the message on the error stream), the attempt to open the
  log, the table printed, and the table written to a CSV file.
\<close>

datatype 'f event =
    Stdout string
  | Stderr string
  | ParserError string
  | OpenLog string
  | PrintTable "'f DataFrame"
  | CsvWritten string "'f DataFrame"

text \<open>
  How the process ends: \<open>main\<close> returns, \<open>sys.exit(n)\<close> is called (\<open>parser.error\<close> calls
  \<open>sys.exit(2)\<close>), or an exception is not caught. The exit status of an uncaught exception is 1.
\<close>

datatype status = Returned | SysExit nat | Uncaught exn


definition compact_columns :: "string list" where
  "compact_columns =
     [''Model'', ''xP/yD'', ''ISL'', ''OSL'', ''Concurrency'',
      ''Request Throughput (req/s)'', ''Total Token Throughput (tok/s)'',
      ''Mean E2E Latency (ms)'', ''Mean TTFT (ms)'', ''Mean ITL (ms)'']"

text \<open>The messages of the three failures of lines 172 to 181, and of line 212.\<close>

definition file_not_found_message :: "string \<Rightarrow> string" where
  "file_not_found_message path = ''Error: File '' @ quoted path @ '' not found.''"

definition parse_error_message :: "exn \<Rightarrow> string" where
  "parse_error_message e = ''Error parsing log file: '' @ str_exn e"

definition no_results_message :: string where
  "no_results_message = ''No benchmark results found in the log file.''"

definition csv_error_message :: "exn \<Rightarrow> string" where
  "csv_error_message e = ''Error saving CSV file: '' @ str_exn e"

text \<open>The screen output of lines 198 to 202.\<close>

definition screen_output :: "args \<Rightarrow> 'f DataFrame \<Rightarrow> nat \<Rightarrow> 'f event list" where
  "screen_output a display_df n =
     (if \<not> no_screen a then
        [Stdout ''Benchmark Results Summary:'',
         Stdout (replicate 120 CHR ''=''),
         PrintTable display_df,
         Stdout (''\<newline>Total runs parsed: '' @ str_nat n)]
      else [])"

text \<open>The CSV output of lines 205 to 213.\<close>

definition csv_output :: "'f env \<Rightarrow> args \<Rightarrow> 'f DataFrame \<Rightarrow> 'f event list \<times> status" where
  "csv_output E a df =
     (if csv_given a then
        (case to_csv E (csv_path a) df of
           None \<Rightarrow>
             (CsvWritten (csv_path a) df #
                (if \<not> no_screen a
                 then [Stdout (''\<newline>Results saved to: '' @ csv_path a)] else []),
              Returned)
         | Some e \<Rightarrow> ([Stderr (csv_error_message e)], SysExit 1))
      else ([], Returned))"

text \<open>Lines 183 to 213: the table, its columns, its display form and the two outputs.\<close>

definition report :: "'f float_ops \<Rightarrow> 'f env \<Rightarrow> args \<Rightarrow> 'f BenchmarkRun list \<Rightarrow> 'f event list \<times> status" where
  "report F E a results =
     (case (if compact a then getitem (DataFrame_of results) compact_columns
            else Inr (DataFrame_of results)) of
        Inl e \<Rightarrow> ([], Uncaught e)
      | Inr df \<Rightarrow>
          (case format_dataframe F df of
             Inl e \<Rightarrow> ([], Uncaught e)
           | Inr display_df \<Rightarrow>
               (let (evs, st) = csv_output E a df
                in (screen_output a display_df (length results) @ evs, st))))"

text \<open>\<open>main()\<close> after \<open>parser.parse_args()\<close>.\<close>

definition main :: "'f float_ops \<Rightarrow> 'f env \<Rightarrow> args \<Rightarrow> 'f event list \<times> status" where
  "main F E a =
     (if no_screen a \<and> \<not> csv_given a then
        ([ParserError ''--no-screen requires --csv option''], SysExit 2)
      else
        (case parse_benchmark_log F (read_text E) (logfile a) of
           Inl (FileNotFoundError m) \<Rightarrow>
             ([OpenLog (logfile a),
               Stderr (file_not_found_message (logfile a))], SysExit 1)
         | Inl e \<Rightarrow>
             ([OpenLog (logfile a), Stderr (parse_error_message e)], SysExit 1)
         | Inr results \<Rightarrow>
             (if results = [] then
                ([OpenLog (logfile a), Stderr no_results_message], SysExit 1)
              else
                (let (evs, st) = report F E a results in (OpenLog (logfile a) # evs, st)))))"

section \<open>Records emitted by a run\<close>

text \<open>The records that one run adds to the results: one or none.\<close>

definition emitted :: "'f float_ops \<Rightarrow> string \<Rightarrow> 'f BenchmarkRun list" where
  "emitted F run = (case parse_run F run of Inr (Some r) \<Rightarrow> [r] | _ \<Rightarrow> [])"



section \<open>Sample inputs\<close>

text \<open>
  An instance of the float operations with exact rational arithmetic, to run the program
  on sample inputs: \<open>float\<close> keeps the exact value and \<open>.2f\<close> rounds half to even.
\<close>

definition round_half_even :: "rat \<Rightarrow> int" where
  "round_half_even q =
     (let f = \<lfloor>q\<rfloor>; d = q - of_int f
      in if d < 1 / 2 then f else if 1 / 2 < d then f + 1 else if even f then f else f + 1)"

definition format_2f_exact :: "rat \<Rightarrow> string" where
  "format_2f_exact q =
     (let n = nat (round_half_even (\<bar>q\<bar> * 100))
      in (if q < 0 then ''-'' else []) @ str_nat (n div 100) @ ''.'' @
         [digit_char (n div 10 mod 10), digit_char (n mod 10)])"

definition exact_floats :: "rat float_ops" where
  "exact_floats =
     \<lparr>of_decimal = (\<lambda>q. q), isnan = (\<lambda>q. False), format_2f = format_2f_exact,
      to_int = (\<lambda>q. if q < 0 then \<lceil>q\<rceil> else \<lfloor>q\<rfloor>)\<rparr>"

text \<open>A run with its header, two dataset statistics, the result marker and three metrics.\<close>

definition sample_run :: string where
  "sample_run =
     '' prompts isl 1024 osl 128 con 8 model llama-8b xP=1 yD=2\<newline>'' @
     ''Total prompts: 32\<newline>'' @
     ''Total input tokens: 1,234,567\<newline>'' @
     ''============ Serving Benchmark Result ============\<newline>'' @
     ''Successful requests: 32\<newline>'' @
     ''Request throughput (req/s): 12.3456\<newline>'' @
     ''Mean TTFT (ms): 1,080.5\<newline>''"

definition sample_record :: "rat BenchmarkRun" where
  "sample_record =
     \<lparr>Model = ''llama-8b'', xP_yD = ''1p2d'', ISL = 1024, OSL = 128, Concurrency = 8,
      Prompts_Group = None, Total_Prompts = Some 32, Total_Input_Tokens = Some 1234567,
      Total_Output_Tokens = None, Request_Throughput_req_s = Some (7716 / 625),
      Input_Token_Throughput_tok_s = None, Output_Token_Throughput_tok_s = None,
      Total_Token_Throughput_tok_s = None, Mean_E2E_Latency_ms = None,
      Mean_TTFT_ms = Some (2161 / 2), Mean_ITL_ms = None\<rparr>"

definition sample_log :: string where
  "sample_log = ''starting\<newline>[RUNNING]'' @ sample_run"


text \<open>A run with a header and no result block, and a run without a header.\<close>

definition header_only_run :: string where
  "header_only_run = '' prompts isl 1 osl 2 con 3 model m xP=1 yD=1\<newline>Total prompts: 4\<newline>''"

definition noise_run :: string where
  "noise_run = '' warming up\<newline>''"

definition three_run_log :: string where
  "three_run_log = ''[RUNNING]'' @ noise_run @ ''[RUNNING]'' @ sample_run @ ''[RUNNING]'' @ header_only_run"

text \<open>Two runs with a token count made of a comma only, with and without the result marker.\<close>

definition comma_run :: string where
  "comma_run =
     '' prompts isl 1 osl 2 con 3 model m xP=1 yD=1\<newline>'' @
     ''Total input tokens: ,\<newline>'' @
     ''============ Serving Benchmark Result ============\<newline>''"

definition comma_run_no_marker :: string where
  "comma_run_no_marker =
     '' prompts isl 1 osl 2 con 3 model m xP=1 yD=1\<newline>'' @
     ''Total input tokens: ,\<newline>''"

text \<open>
  Four file systems: one where \<open>bench.log\<close> holds the sample log and every CSV file can be
  written, one where no file exists, one where the log exists and may not be read, and one
  where the log holds a run without a header.
\<close>

definition sample_env :: "rat env" where
  "sample_env =
     \<lparr>read_text = (\<lambda>p. if p = ''bench.log'' then Inr sample_log
                         else Inl (FileNotFoundError (''[Errno 2] No such file or directory: '' @ quoted p))),
      to_csv = (\<lambda>p df. None)\<rparr>"

definition empty_env :: "rat env" where
  "empty_env =
     \<lparr>read_text = (\<lambda>p. Inl (FileNotFoundError (''[Errno 2] No such file or directory: '' @ quoted p))),
      to_csv = (\<lambda>p df. None)\<rparr>"

definition denied_env :: "rat env" where
  "denied_env =
     \<lparr>read_text = (\<lambda>p. Inl (PermissionError (''[Errno 13] Permission denied: '' @ quoted p))),
      to_csv = (\<lambda>p df. None)\<rparr>"

definition noise_log :: string where
  "noise_log = ''[RUNNING]'' @ noise_run"

definition noise_env :: "rat env" where
  "noise_env = \<lparr>read_text = (\<lambda>p. Inr noise_log), to_csv = (\<lambda>p df. None)\<rparr>"

text \<open>A sequence of connection attempts: two succeed, then the connection is refused.\<close>

definition two_then_refused :: "nat \<Rightarrow> int" where
  "two_then_refused k = (if k < 2 then 0 else 111)"

section \<open>Exceptions in sequence and decimal digits\<close>

lemma ebind_Inl [simp]: "ebind (Inl e) f = Inl e"
  by (simp add: ebind_def)

lemma ebind_Inr [simp]: "ebind (Inr x) f = f x"
  by (simp add: ebind_def)

lemma ebind_eq_Inr: "ebind m f = Inr y \<longleftrightarrow> (\<exists>x. m = Inr x \<and> f x = Inr y)"
  by (cases m) simp_all

lemma digit_char_simps:
  "digit_char 0 = CHR ''0''" "digit_char 1 = CHR ''1''" "digit_char 2 = CHR ''2''"
  "digit_char 3 = CHR ''3''" "digit_char 4 = CHR ''4''" "digit_char 5 = CHR ''5''"
  "digit_char 6 = CHR ''6''" "digit_char 7 = CHR ''7''" "digit_char 8 = CHR ''8''"
  "digit_char 9 = CHR ''9''" "digit_char (Suc 0) = CHR ''1''"
  by code_simp+

lemma str_int_8000: "str_int 8000 = ''8000''"
  by (simp add: str_int_def str_nat.simps digit_char_simps)

lemma str_nat_1: "str_nat 1 = ''1''" "str_nat (Suc 0) = ''1''"
  by (simp_all add: str_nat.simps digit_char_simps)

section \<open>The loop of the port waiter\<close>

lemma poll_loop_first_failure:
  "\<forall>i<n. rc (k + i) = 0 \<Longrightarrow> rc (k + n) \<noteq> 0 \<Longrightarrow>
   poll_loop rc host port iv k tr =
     Some (tr @ concat (replicate n [Connect host port, Sleep iv]) @ [Connect host port])"
proof (induction n arbitrary: k tr)
  case 0
  then show ?case by (subst poll_loop.simps) (simp add: is_port_open_def)
next
  case (Suc n)
  have open0: "rc k = 0" using Suc.prems(1) by (metis add.right_neutral zero_less_Suc)
  have "\<forall>i<n. rc (Suc k + i) = 0" using Suc.prems(1) by auto
  moreover have "rc (Suc k + n) \<noteq> 0" using Suc.prems(2) by simp
  ultimately have "poll_loop rc host port iv (Suc k) (tr @ [Connect host port, Sleep iv]) =
     Some ((tr @ [Connect host port, Sleep iv]) @ concat (replicate n [Connect host port, Sleep iv]) @ [Connect host port])"
    by (rule Suc.IH)
  then show ?case using open0 by (subst poll_loop.simps) (simp add: is_port_open_def)
qed

lemma poll_loop_returns_failure:
  assumes "poll_loop rc host port iv k tr = Some out"
  shows "\<exists>n. rc (k + n) \<noteq> 0"
proof (rule poll_loop.raw_induct [rotated 1, OF assms])
  fix f rc host port iv k tr out
  assume IH: "\<And>rc host port iv k tr out.
                 f rc host port iv k tr = Some out \<Longrightarrow> \<exists>n. rc (k + n) \<noteq> (0::int)"
    and body: "(if is_port_open (rc k)
        then f rc host port iv (Suc k) (tr @ [Connect host port, Sleep iv])
        else Some (tr @ [Connect host port])) = Some out"
  show "\<exists>n. rc (k + n) \<noteq> 0"
  proof (cases "rc k = 0")
    case True
    with body have "f rc host port iv (Suc k) (tr @ [Connect host port, Sleep iv]) = Some out"
      by (simp add: is_port_open_def)
    from IH[OF this] obtain n where "rc (Suc k + n) \<noteq> 0" by blast
    then have "rc (k + Suc n) \<noteq> 0" by simp
    then show ?thesis by blast
  next
    case False
    then have "rc (k + 0) \<noteq> 0" by simp
    then show ?thesis by blast
  qed
qed

lemma sleeps_append: "sleeps (xs @ ys) = sleeps xs + sleeps ys"
  by (simp add: sleeps_def)

lemma sleeps_rounds: "sleeps (concat (replicate n [Connect h p, Sleep iv])) = n"
  by (induction n) (simp_all add: sleeps_def)

lemma port_waiter_first_attempt_fails:
  "rc 0 \<noteq> 0 \<Longrightarrow> socket_wait_main rc host port =
     Some [Print (''Waiting while port '' @ str_int port @ '' on '' @ host @ '' is open...''),
           Connect host port,
           Print (''Port '' @ str_int port @ '' on '' @ host @ '' is now closed.'')]"
  unfolding socket_wait_main_def wait_while_port_open_def
  by (subst poll_loop.simps) (simp add: is_port_open_def)

lemma port_waiter_never_closed:
  assumes "\<forall>k. rc k = 0"
  shows "socket_wait_main rc host port = None"
proof (cases "socket_wait_main rc host port")
  case None
  then show ?thesis .
next
  case (Some tr)
  then obtain out where "poll_loop rc host port 5 0
      [Print (''Waiting while port '' @ str_int port @ '' on '' @ host @ '' is open...'')] = Some out"
    by (auto simp: socket_wait_main_def wait_while_port_open_def split: option.splits)
  from poll_loop_returns_failure[OF this] assms show ?thesis by simp
qed

section \<open>What the searches find\<close>


lemma first_some_NoneD: "first_some f xs = None \<Longrightarrow> x \<in> set xs \<Longrightarrow> f x = None"
  by (induction xs) (auto split: option.splits)

lemma set_run_lengths: "set (run_lengths c s) = {1..length (takeWhile c s)}"
  by (auto simp: run_lengths_def)

lemma match_at_Group_end:
  "match_at [Group c] s = (if takeWhile c s = [] then None else Some [takeWhile c s])"
proof (cases "length (takeWhile c s)")
  case 0
  then show ?thesis by (simp add: run_lengths_def)
next
  case (Suc k)
  then have "run_lengths c s = Suc k # rev [1..<Suc k]"
    by (simp add: run_lengths_def)
  moreover have "take (Suc k) s = takeWhile c s"
    using Suc takeWhile_eq_take [of c s] by simp
  moreover have "takeWhile c s \<noteq> []"
    using Suc by auto
  ultimately show ?thesis by simp
qed




lemma search_NoneD: "search p s = None \<Longrightarrow> s = pre @ suf \<Longrightarrow> match_at p suf = None"
proof (induction s arbitrary: pre)
  case Nil
  then show ?case by simp
next
  case (Cons a s)
  from Cons.prems(1) have here: "match_at p (a # s) = None" and rest: "search p s = None"
    by (auto split: option.splits)
  show ?case
  proof (cases pre)
    case Nil
    with Cons.prems(2) here show ?thesis by simp
  next
    case (Cons b pre')
    with Cons.prems(2) have "s = pre' @ suf" by simp
    from Cons.IH [OF rest this] show ?thesis .
  qed
qed


text \<open>
  When the search finds nothing, the run has no occurrence of the label followed by white
  space and a character of the class (for a class without white space).
\<close>

lemma search_field_NoneD:
  assumes "search (field_pattern label c) run = None"
    and "run = pre @ label @ ws @ x # post" and "ws \<noteq> []" and "list_all is_space ws" and "c x"
    and disj: "\<And>y. c y \<Longrightarrow> \<not> is_space y"
  shows False
proof -
  have none: "match_at (field_pattern label c) (label @ ws @ x # post) = None"
    using search_NoneD [OF assms(1,2)] .
  have tw: "takeWhile is_space (ws @ x # post) = ws"
    using assms(4,5) disj by (simp add: list_all_iff takeWhile_append2)
  have "first_some (\<lambda>n. match_at [Group c] (drop n (ws @ x # post)))
          (run_lengths is_space (ws @ x # post)) = None"
    using none by (simp add: field_pattern_def)
  moreover have "length ws \<in> set (run_lengths is_space (ws @ x # post))"
    using assms(3) by (simp add: set_run_lengths tw Suc_le_eq)
  ultimately have "match_at [Group c] (drop (length ws) (ws @ x # post)) = None"
    by (rule first_some_NoneD)
  then have "takeWhile c (x # post) = []"
    unfolding match_at_Group_end by (simp split: if_splits)
  then show False
    using assms(5) by simp
qed


section \<open>Conversions and the fields of a record\<close>








section \<open>The loop over the runs\<close>

lemma parse_run_SomeD:
  assumes "parse_run F run = Inr (Some r)"
  shows "search header_pattern run \<noteq> None"
    and "sublist result_marker run"
    and "find_int ''Prompts per group:'' run = Inr (Prompts_Group r)"
    and "find_int ''Total prompts:'' run = Inr (Total_Prompts r)"
    and "find_int_commas ''Total input tokens:'' run = Inr (Total_Input_Tokens r)"
    and "find_int_commas ''Total output tokens:'' run = Inr (Total_Output_Tokens r)"
    and "extract_metric F run (field_pattern ''Request throughput (req/s):'' digit_dot) = Inr (Request_Throughput_req_s r)"
    and "extract_metric F run (field_pattern ''Input token throughput (tok/s):'' digit_comma_dot) = Inr (Input_Token_Throughput_tok_s r)"
    and "extract_metric F run (field_pattern ''Output token throughput (tok/s):'' digit_comma_dot) = Inr (Output_Token_Throughput_tok_s r)"
    and "extract_metric F run (field_pattern ''Total token throughput (tok/s):'' digit_comma_dot) = Inr (Total_Token_Throughput_tok_s r)"
    and "extract_metric F run (field_pattern ''Mean E2E Latency (ms):'' digit_comma_dot) = Inr (Mean_E2E_Latency_ms r)"
    and "extract_metric F run (field_pattern ''Mean TTFT (ms):'' digit_comma_dot) = Inr (Mean_TTFT_ms r)"
    and "extract_metric F run (field_pattern ''Mean ITL (ms):'' digit_comma_dot) = Inr (Mean_ITL_ms r)"
  using assms
  by (auto simp: parse_run_def ebind_eq_Inr split: option.splits if_splits)

lemma parse_run_NoneD:
  assumes "parse_run F run = Inr None"
  shows "search header_pattern run = None \<or> \<not> sublist result_marker run"
  using assms
  by (auto simp: parse_run_def ebind_eq_Inr split: option.splits if_splits)

lemma parse_run_no_header:
  "search header_pattern run = None \<Longrightarrow> parse_run F run = Inr None"
  by (simp add: parse_run_def)

lemma emitted_at_most_one: "length (emitted F run) \<le> 1"
  by (simp add: emitted_def split: sum.split option.split)

lemma length_concat_emitted: "length (concat (map (emitted F) runs)) \<le> length runs"
proof (induction runs)
  case Nil
  then show ?case by simp
next
  case (Cons run runs)
  then show ?case using emitted_at_most_one [of F run] by simp
qed

lemma parse_loop_Inr:
  "parse_loop F acc runs = Inr results \<Longrightarrow>
     results = acc @ concat (map (emitted F) runs) \<and> list_all (\<lambda>run. \<not> isl (parse_run F run)) runs"
proof (induction runs arbitrary: acc)
  case Nil
  then show ?case by simp
next
  case (Cons run runs)
  show ?case
  proof (cases "parse_run F run")
    case (Inl e)
    with Cons.prems show ?thesis by simp
  next
    case (Inr x)
    show ?thesis
    proof (cases x)
      case None
      with Inr Cons.prems have "parse_loop F acc runs = Inr results" by simp
      from Cons.IH [OF this] show ?thesis using Inr None by (simp add: emitted_def)
    next
      case (Some r)
      with Inr Cons.prems have "parse_loop F (acc @ [r]) runs = Inr results" by simp
      from Cons.IH [OF this] show ?thesis using Inr Some by (simp add: emitted_def)
    qed
  qed
qed

lemma emitted_iff:
  assumes "\<not> isl (parse_run F run)"
  shows "(emitted F run \<noteq> []) = (search header_pattern run \<noteq> None \<and> sublist result_marker run)"
proof -
  from assms obtain x where x: "parse_run F run = Inr x"
    by (cases "parse_run F run") simp_all
  show ?thesis
  proof (cases x)
    case None
    with x parse_run_NoneD [of F run] show ?thesis by (auto simp: emitted_def)
  next
    case (Some r)
    with x parse_run_SomeD(1,2) [of F run r] show ?thesis by (simp add: emitted_def)
  qed
qed

section \<open>The table and its formatting\<close>

lemma compact_label_missing: "\<not> list_all (\<lambda>l. l \<in> set record_keys) compact_columns"
  by (simp add: compact_columns_def record_keys_def)

lemma getitem_compact_columns:
  "getitem (DataFrame_of results) compact_columns = Inl (KeyError ''not in index'')"
  using compact_label_missing by (simp add: getitem_def DataFrame_of_def)

lemma format_columns_absent:
  "list_all (\<lambda>col. col \<notin> set (columns df)) cols \<Longrightarrow> format_columns f cols df = Inr df"
  by (induction cols) simp_all

lemma numeric_cols_absent: "list_all (\<lambda>col. col \<notin> set record_keys) numeric_cols"
  by (simp add: numeric_cols_def record_keys_def)

lemma integer_cols_absent: "list_all (\<lambda>col. col \<notin> set record_keys) integer_cols"
  by (simp add: integer_cols_def record_keys_def)

lemma format_dataframe_DataFrame_of:
  "format_dataframe F (DataFrame_of results) = Inr (DataFrame_of results)"
proof -
  have cols: "columns (DataFrame_of results) = record_keys"
    by (simp add: DataFrame_of_def)
  have "format_columns (format_numeric F) numeric_cols (DataFrame_of results) = Inr (DataFrame_of results)"
    using numeric_cols_absent by (intro format_columns_absent) (simp add: cols)
  moreover have "format_columns (format_integer F) integer_cols (DataFrame_of results) = Inr (DataFrame_of results)"
    using integer_cols_absent by (intro format_columns_absent) (simp add: cols)
  ultimately show ?thesis by (simp add: format_dataframe_def)
qed

lemma format_dataframe_example:
  "format_dataframe F \<lparr>columns = [''Model'', ''Mean TTFT (ms)'', ''Total Input Tokens''],
                        rows = [[CStr m, CFloat x, CInt n], [CStr m', CNone, CNone]]\<rparr> =
     (if isnan F x
      then Inr \<lparr>columns = [''Model'', ''Mean TTFT (ms)'', ''Total Input Tokens''],
                rows = [[CStr m, CFloat x, CStr (format_comma n)], [CStr m', CNone, CNone]]\<rparr>
      else Inr \<lparr>columns = [''Model'', ''Mean TTFT (ms)'', ''Total Input Tokens''],
                rows = [[CStr m, CStr (format_2f F x), CStr (format_comma n)], [CStr m', CNone, CNone]]\<rparr>)"
  by (simp add: format_dataframe_def numeric_cols_def integer_cols_def apply_column_def
      format_numeric_def format_integer_def notna_def)

section \<open>The branches of main\<close>

lemma report_compact:
  "compact a \<Longrightarrow> report F E a results = ([], Uncaught (KeyError ''not in index''))"
  by (simp add: report_def getitem_compact_columns)

lemma report_full:
  "\<not> compact a \<Longrightarrow> report F E a results =
     (screen_output a (DataFrame_of results) (length results) @ fst (csv_output E a (DataFrame_of results)),
      snd (csv_output E a (DataFrame_of results)))"
  by (simp add: report_def format_dataframe_DataFrame_of split_def Let_def)




lemma main_results:
  assumes "\<not> (no_screen a \<and> \<not> csv_given a)"
    and "parse_benchmark_log F (read_text E) (logfile a) = Inr results" and "results \<noteq> []"
  shows "main F E a = (OpenLog (logfile a) # fst (report F E a results), snd (report F E a results))"
  using assms by (auto simp add: main_def split_def Let_def)

lemma main_compact:
  assumes "\<not> (no_screen a \<and> \<not> csv_given a)"
    and "parse_benchmark_log F (read_text E) (logfile a) = Inr results" and "results \<noteq> []"
    and "compact a"
  shows "main F E a = ([OpenLog (logfile a)], Uncaught (KeyError ''not in index''))"
  using main_results [OF assms(1-3)] assms(4) by (simp add: report_compact)


lemma main_csv_write_fails:
  assumes "\<not> compact a" and "csv a = Some path" and "path \<noteq> []"
    and "parse_benchmark_log F (read_text E) (logfile a) = Inr results" and "results \<noteq> []"
    and "to_csv E path (DataFrame_of results) = Some e"
  shows "main F E a =
           (OpenLog (logfile a) # screen_output a (DataFrame_of results) (length results) @
              [Stderr (csv_error_message e)],
            SysExit 1)"
proof -
  have given: "csv_given a" and p: "csv_path a = path"
    using assms(2,3) by (simp_all add: csv_given_def csv_path_def)
  then have "\<not> (no_screen a \<and> \<not> csv_given a)" by simp
  from main_results [OF this assms(4,5)] show ?thesis
    using assms(1,6) given p by (simp add: report_full csv_output_def)
qed

lemma failure_messages_distinct:
  "file_not_found_message path \<noteq> parse_error_message e"
  "file_not_found_message path \<noteq> no_results_message"
  "parse_error_message e \<noteq> no_results_message"
  by (simp_all add: file_not_found_message_def parse_error_message_def no_results_message_def)

section \<open>The program on the sample inputs\<close>

lemmas conversion_defs =
  match_group_def py_int_def py_float_def float_literal_def strip_commas_def dec_rat_def
  dec_value_def digit_val_def is_digit_def is_dot_def is_comma_def

lemma runs_of_sample_log: "runs_of sample_log = [sample_run]"
  by code_simp

lemma sample_run_header:
  "search header_pattern sample_run = Some [''1024'', ''128'', ''8'', ''llama-8b'', ''1'', ''2'']"
  by code_simp

lemma sample_run_marker: "sublist result_marker sample_run"
  by code_simp

lemma sample_run_searches:
  "search (field_pattern ''Prompts per group:'' is_digit) sample_run = None"
  "search (field_pattern ''Total prompts:'' is_digit) sample_run = Some [''32'']"
  "search (field_pattern ''Total input tokens:'' digit_comma) sample_run = Some [''1,234,567'']"
  "search (field_pattern ''Total output tokens:'' digit_comma) sample_run = None"
  "search (field_pattern ''Successful requests:'' digit_comma) sample_run = Some [''32'']"
  "search (field_pattern ''Benchmark duration (s):'' digit_dot) sample_run = None"
  "search (field_pattern ''Request throughput (req/s):'' digit_dot) sample_run = Some [''12.3456'']"
  "search (field_pattern ''Input token throughput (tok/s):'' digit_comma_dot) sample_run = None"
  "search (field_pattern ''Output token throughput (tok/s):'' digit_comma_dot) sample_run = None"
  "search (field_pattern ''Total token throughput (tok/s):'' digit_comma_dot) sample_run = None"
  "search (field_pattern ''Mean E2E Latency (ms):'' digit_comma_dot) sample_run = None"
  "search (field_pattern ''Mean TTFT (ms):'' digit_comma_dot) sample_run = Some [''1,080.5'']"
  "search (field_pattern ''Mean ITL (ms):'' digit_comma_dot) sample_run = None"
  by code_simp+

lemma parse_run_sample_run: "parse_run exact_floats sample_run = Inr (Some sample_record)"
  unfolding parse_run_def find_int_def find_int_commas_def extract_metric_def
    sample_run_header sample_run_searches
  by (simp add: conversion_defs sample_run_marker sample_record_def exact_floats_def
      str_int_def str_nat.simps digit_char_simps)

lemma parse_content_sample_log: "parse_content exact_floats sample_log = Inr [sample_record]"
  by (simp add: parse_content_def runs_of_sample_log parse_run_sample_run)

lemma parse_benchmark_log_sample:
  "parse_benchmark_log exact_floats (read_text sample_env) ''bench.log'' = Inr [sample_record]"
  by (simp add: parse_benchmark_log_def sample_env_def parse_content_sample_log)







text \<open>
  The class of the two prompt counts has no comma: a count written with a separator is read
  up to the separator.
\<close>

lemma total_prompts_search: "search (field_pattern ''Total prompts:'' is_digit) ''Total prompts: 1,000'' = Some [''1'']"
  by code_simp

lemma total_prompts_stops_at_comma: "find_int ''Total prompts:'' ''Total prompts: 1,000'' = Inr (Some 1)"
  unfolding find_int_def total_prompts_search by (simp add: conversion_defs)

lemma runs_of_three_run_log: "runs_of three_run_log = [noise_run, sample_run, header_only_run]"
  by code_simp

lemma noise_run_header: "search header_pattern noise_run = None"
  by code_simp

lemma header_only_run_header:
  "search header_pattern header_only_run = Some [''1'', ''2'', ''3'', ''m'', ''1'', ''1'']"
  by code_simp

lemma header_only_run_marker: "\<not> sublist result_marker header_only_run"
  by code_simp

lemma header_only_run_searches:
  "search (field_pattern ''Prompts per group:'' is_digit) header_only_run = None"
  "search (field_pattern ''Total prompts:'' is_digit) header_only_run = Some [''4'']"
  "search (field_pattern ''Total input tokens:'' digit_comma) header_only_run = None"
  "search (field_pattern ''Total output tokens:'' digit_comma) header_only_run = None"
  by code_simp+

lemma parse_run_noise_run: "parse_run F noise_run = Inr None"
  by (simp add: parse_run_no_header noise_run_header)

lemma parse_run_header_only_run: "parse_run F header_only_run = Inr None"
  unfolding parse_run_def find_int_def find_int_commas_def
    header_only_run_header header_only_run_searches
  by (simp add: conversion_defs header_only_run_marker)

lemma parse_content_three_run_log: "parse_content exact_floats three_run_log = Inr [sample_record]"
  by (simp add: parse_content_def runs_of_three_run_log parse_run_noise_run
      parse_run_sample_run parse_run_header_only_run)

lemma comma_run_header:
  "search header_pattern comma_run = Some [''1'', ''2'', ''3'', ''m'', ''1'', ''1'']"
  "search header_pattern comma_run_no_marker = Some [''1'', ''2'', ''3'', ''m'', ''1'', ''1'']"
  by code_simp+

lemma comma_run_marker: "sublist result_marker comma_run" "\<not> sublist result_marker comma_run_no_marker"
  by code_simp+

lemma comma_run_searches:
  "search (field_pattern ''Prompts per group:'' is_digit) comma_run = None"
  "search (field_pattern ''Total prompts:'' is_digit) comma_run = None"
  "search (field_pattern ''Total input tokens:'' digit_comma) comma_run = Some ['','']"
  "search (field_pattern ''Prompts per group:'' is_digit) comma_run_no_marker = None"
  "search (field_pattern ''Total prompts:'' is_digit) comma_run_no_marker = None"
  "search (field_pattern ''Total input tokens:'' digit_comma) comma_run_no_marker = Some ['','']"
  by code_simp+

lemma parse_run_comma_run:
  "parse_run F comma_run = Inl (ValueError (''invalid literal for int() with base 10: '' @ quoted []))"
  unfolding parse_run_def find_int_def find_int_commas_def comma_run_header comma_run_searches
  by (simp add: conversion_defs)

lemma parse_run_comma_run_no_marker:
  "parse_run F comma_run_no_marker = Inl (ValueError (''invalid literal for int() with base 10: '' @ quoted []))"
  unfolding parse_run_def find_int_def find_int_commas_def comma_run_header comma_run_searches
  by (simp add: conversion_defs)

lemma runs_of_noise_log: "runs_of noise_log = [noise_run]"
  by code_simp

lemma parse_benchmark_log_noise:
  "parse_benchmark_log exact_floats (read_text noise_env) ''bench.log'' = Inr []"
  by (simp add: parse_benchmark_log_def noise_env_def parse_content_def runs_of_noise_log
      parse_run_noise_run)

section \<open>The claims about the benchmark parser\<close>

text \<open>
  Claim C1. On the sample log, whose parse yields one record, the run with \<open>--compact\<close>
  displays nothing: the selection of the compact columns raises \<open>KeyError\<close>, because the
  labels it asks for (\<open>xP/yD\<close>, \<open>Request Throughput (req/s)\<close>, ...) are not the column labels
  of the table (\<open>xP_yD\<close>, \<open>Request_Throughput_req_s\<close>, ...), and the exception is not caught.
\<close>

theorem compact_mode_raises_KeyError:
  "main exact_floats sample_env
     \<lparr>logfile = ''bench.log'', csv = None, compact = True, no_screen = False\<rparr> =
   ([OpenLog ''bench.log''], Uncaught (KeyError ''not in index''))"
  by (rule main_compact [where results = "[sample_record]", THEN trans])
     (simp_all add: parse_benchmark_log_sample)




text \<open>
  Claim C3. On the sample log, the table printed on the screen holds the request throughput
  as the float 12.3456 (7716 / 625) and the total of input tokens as the integer 1234567:
  no cell was formatted to two decimal places or with separators, because
  \<open>format_dataframe\<close> looks for column labels that the table does not have.
\<close>

theorem screen_table_is_not_formatted:
  "main exact_floats sample_env
     \<lparr>logfile = ''bench.log'', csv = None, compact = False, no_screen = False\<rparr> =
   ([OpenLog ''bench.log'',
     Stdout ''Benchmark Results Summary:'',
     Stdout (replicate 120 CHR ''=''),
     PrintTable
       \<lparr>columns = record_keys,
        rows = [[CStr ''llama-8b'', CStr ''1p2d'', CInt 1024, CInt 128, CInt 8,
                 CNone, CInt 32, CInt 1234567, CNone,
                 CFloat (7716 / 625), CNone, CNone, CNone, CNone, CFloat (2161 / 2), CNone]]\<rparr>,
     Stdout ''\<newline>Total runs parsed: 1''],
    Returned)"
  by (rule main_results [where results = "[sample_record]", THEN trans])
     (simp_all add: parse_benchmark_log_sample report_full csv_given_def csv_output_def
        screen_output_def DataFrame_of_def record_values_def sample_record_def
        int_cell_def float_cell_def str_nat_1)

text \<open>
  Claim C4, as amended. When the parse of a text returns (no conversion raises), its records
  are the records emitted by the segments, in the order of the segments; a segment emits a
  record if and only if it matches the header pattern and contains the result marker; and
  there are at most as many records as segments. A segment that does not match the header
  pattern emits no record and raises no error, in any text.
\<close>

theorem records_come_from_complete_segments:
  assumes "parse_content F content = Inr results"
  shows "results = concat (map (emitted F) (runs_of content))
       \<and> list_all (\<lambda>run. (emitted F run \<noteq> []) =
                          (search header_pattern run \<noteq> None \<and> sublist result_marker run))
           (runs_of content)
       \<and> length results \<le> length (runs_of content)
       \<and> (\<forall>run. search header_pattern run = None \<longrightarrow> parse_run F run = Inr None)"
proof -
  from assms have loop: "parse_loop F [] (runs_of content) = Inr results"
    by (simp add: parse_content_def)
  from parse_loop_Inr [OF loop]
  have res: "results = concat (map (emitted F) (runs_of content))"
    and ok: "list_all (\<lambda>run. \<not> isl (parse_run F run)) (runs_of content)"
    by simp_all
  from ok have "list_all (\<lambda>run. (emitted F run \<noteq> []) =
                          (search header_pattern run \<noteq> None \<and> sublist result_marker run))
           (runs_of content)"
    by (auto simp: list_all_iff dest: emitted_iff)
  moreover have "length results \<le> length (runs_of content)"
    unfolding res by (rule length_concat_emitted)
  ultimately show ?thesis
    using res by (simp add: parse_run_no_header)
qed

text \<open>
  A log of three segments: one without a header, the sample run, and one with a header and no
  result marker. Only the sample run emits a record.
\<close>

theorem records_come_from_complete_segments_witness:
  "[sample_record] = concat (map (emitted exact_floats) [noise_run, sample_run, header_only_run])
   \<and> emitted exact_floats noise_run = [] \<and> search header_pattern noise_run = None
   \<and> emitted exact_floats sample_run = [sample_record]
   \<and> emitted exact_floats header_only_run = [] \<and> \<not> sublist result_marker header_only_run"
  using records_come_from_complete_segments [OF parse_content_three_run_log]
  by (simp add: runs_of_three_run_log noise_run_header header_only_run_marker emitted_def
      parse_run_noise_run parse_run_sample_run parse_run_header_only_run)

text \<open>
  As stated, the claim fails on a segment whose count of input tokens is a comma: the segment
  matches the header pattern and contains the marker, and yet it emits no record, because the
  conversion of the count raises \<open>ValueError\<close>; the same segment without the marker fails a
  condition and raises the same error.
\<close>

theorem comma_only_count_counterexample:
  "search header_pattern comma_run \<noteq> None \<and> sublist result_marker comma_run
   \<and> emitted exact_floats comma_run = []
   \<and> parse_run exact_floats comma_run =
       Inl (ValueError (''invalid literal for int() with base 10: '' @ quoted []))
   \<and> \<not> sublist result_marker comma_run_no_marker
   \<and> parse_run exact_floats comma_run_no_marker =
       Inl (ValueError (''invalid literal for int() with base 10: '' @ quoted []))"
  by (simp add: comma_run_header comma_run_marker emitted_def parse_run_comma_run
      parse_run_comma_run_no_marker)




text \<open>
  Claim C7, as amended. After the arguments are accepted, the run ends with exit status 1
  and one message on the error stream in three cases: when reading the log raises
  \<open>FileNotFoundError\<close>, the file-not-found message; when reading or parsing raises any other
  exception (a log that exists and may not be read, a number that does not convert), the
  parse-error message with the text of the exception; when the parse returns no record, the
  no-results message. The three messages are different texts, whatever the path and the
  exception are.
\<close>

theorem three_failure_reports:
  assumes "\<not> (no_screen a \<and> \<not> csv_given a)"
  shows "(\<forall>m. parse_benchmark_log F (read_text E) (logfile a) = Inl (FileNotFoundError m) \<longrightarrow>
            main F E a = ([OpenLog (logfile a), Stderr (file_not_found_message (logfile a))], SysExit 1))
       \<and> (\<forall>e. parse_benchmark_log F (read_text E) (logfile a) = Inl e \<longrightarrow>
                (\<forall>m. e \<noteq> FileNotFoundError m) \<longrightarrow>
            main F E a = ([OpenLog (logfile a), Stderr (parse_error_message e)], SysExit 1))
       \<and> (parse_benchmark_log F (read_text E) (logfile a) = Inr [] \<longrightarrow>
            main F E a = ([OpenLog (logfile a), Stderr no_results_message], SysExit 1))
       \<and> file_not_found_message path \<noteq> parse_error_message e'
       \<and> file_not_found_message path \<noteq> no_results_message
       \<and> parse_error_message e' \<noteq> no_results_message"
proof -
  have "main F E a = ([OpenLog (logfile a), Stderr (file_not_found_message (logfile a))], SysExit 1)"
    if "parse_benchmark_log F (read_text E) (logfile a) = Inl (FileNotFoundError m)" for m
    using that assms by (auto simp add: main_def)
  moreover have "main F E a = ([OpenLog (logfile a), Stderr (parse_error_message e)], SysExit 1)"
    if "parse_benchmark_log F (read_text E) (logfile a) = Inl e" "\<forall>m. e \<noteq> FileNotFoundError m" for e
    using that assms by (cases e) (auto simp add: main_def)
  moreover have "main F E a = ([OpenLog (logfile a), Stderr no_results_message], SysExit 1)"
    if "parse_benchmark_log F (read_text E) (logfile a) = Inr []"
    using that assms by (auto simp add: main_def)
  ultimately show ?thesis
    using failure_messages_distinct by blast
qed

text \<open>
  The three reports, on a file system without the log, on one where the log may not be read,
  and on a log without a complete run.
\<close>

theorem three_failure_reports_witness:
  "main exact_floats empty_env \<lparr>logfile = ''bench.log'', csv = None, compact = False, no_screen = False\<rparr> =
     ([OpenLog ''bench.log'', Stderr (file_not_found_message ''bench.log'')], SysExit 1)
   \<and> main exact_floats denied_env \<lparr>logfile = ''bench.log'', csv = None, compact = False, no_screen = False\<rparr> =
     ([OpenLog ''bench.log'',
       Stderr (parse_error_message (PermissionError (''[Errno 13] Permission denied: '' @ quoted ''bench.log'')))],
      SysExit 1)
   \<and> main exact_floats noise_env \<lparr>logfile = ''bench.log'', csv = None, compact = False, no_screen = False\<rparr> =
     ([OpenLog ''bench.log'', Stderr no_results_message], SysExit 1)"
  using
    three_failure_reports [of "\<lparr>logfile = ''bench.log'', csv = None, compact = False, no_screen = False\<rparr>"
      exact_floats empty_env]
    three_failure_reports [of "\<lparr>logfile = ''bench.log'', csv = None, compact = False, no_screen = False\<rparr>"
      exact_floats denied_env]
    three_failure_reports [of "\<lparr>logfile = ''bench.log'', csv = None, compact = False, no_screen = False\<rparr>"
      exact_floats noise_env]
    parse_benchmark_log_noise
  by (simp add: parse_benchmark_log_def empty_env_def denied_env_def)

text \<open>
  As stated, with every unreadable log reported as not found, the claim fails on a log that
  exists and may not be read: opening it raises \<open>PermissionError\<close>, and the report is the
  parse-error message, not the file-not-found message.
\<close>

theorem unreadable_log_counterexample:
  "read_text denied_env ''bench.log'' =
     Inl (PermissionError (''[Errno 13] Permission denied: '' @ quoted ''bench.log''))
   \<and> main exact_floats denied_env \<lparr>logfile = ''bench.log'', csv = None, compact = False, no_screen = False\<rparr> =
     ([OpenLog ''bench.log'',
       Stderr (''Error parsing log file: [Errno 13] Permission denied: '' @ quoted ''bench.log'')],
      SysExit 1)
   \<and> main exact_floats denied_env \<lparr>logfile = ''bench.log'', csv = None, compact = False, no_screen = False\<rparr> \<noteq>
     ([OpenLog ''bench.log'', Stderr (file_not_found_message ''bench.log'')], SysExit 1)"
  by (simp add: main_def parse_benchmark_log_def denied_env_def csv_given_def
      parse_error_message_def file_not_found_message_def)

text \<open>
  Claim C8. With the flag \<open>--no-screen\<close> and without \<open>--csv\<close>, whatever the file
  system holds, the program reports the error through the argument parser and exits with a
  non-zero status; the log is never opened.
\<close>

theorem no_screen_without_csv_is_rejected_first:
  assumes "no_screen a" and "csv a = None"
  shows "main F E a = ([ParserError ''--no-screen requires --csv option''], SysExit 2)"
  using assms by (simp add: main_def csv_given_def)

text \<open>
  The same arguments on a file system without the log and on one that has it.
\<close>

theorem no_screen_without_csv_is_rejected_first_witness:
  "main exact_floats empty_env \<lparr>logfile = ''bench.log'', csv = None, compact = False, no_screen = True\<rparr> =
     ([ParserError ''--no-screen requires --csv option''], SysExit 2)
   \<and> main exact_floats sample_env \<lparr>logfile = ''bench.log'', csv = None, compact = False, no_screen = True\<rparr> =
     ([ParserError ''--no-screen requires --csv option''], SysExit 2)"
  using no_screen_without_csv_is_rejected_first [of "\<lparr>logfile = ''bench.log'', csv = None, compact = False, no_screen = True\<rparr>" exact_floats empty_env]
        no_screen_without_csv_is_rejected_first [of "\<lparr>logfile = ''bench.log'', csv = None, compact = False, no_screen = True\<rparr>" exact_floats sample_env]
  by simp

section \<open>The claim about the port waiter\<close>

text \<open>
  Claim C9. Let attempt number \<open>n\<close> be the first connection attempt that fails, with any
  non-zero errno (refused, timed out, unreachable). Then the port waiter returns, and what it
  did is: the first message, then \<open>n\<close> times a connection attempt followed by one sleep of
  the fixed interval, then the failed attempt, then the last message. So it sleeps exactly once
  after each successful attempt, \<open>n\<close> times in all, stops at the first failed attempt, and
  for \<open>n = 0\<close> it never sleeps.
\<close>

theorem port_waiter_sleeps_once_per_success:
  assumes "\<forall>i<n. rc i = 0" and "rc n \<noteq> 0"
  shows "socket_wait_main rc host port =
           Some ([Print (''Waiting while port '' @ str_int port @ '' on '' @ host @ '' is open...'')] @
                 concat (replicate n [Connect host port, Sleep 5]) @
                 [Connect host port,
                  Print (''Port '' @ str_int port @ '' on '' @ host @ '' is now closed.'')])
         \<and> (\<forall>tr. socket_wait_main rc host port = Some tr \<longrightarrow> sleeps tr = n)"
proof -
  have "\<forall>i<n. rc (0 + i) = 0" and "rc (0 + n) \<noteq> 0"
    using assms by simp_all
  then have "poll_loop rc host port 5 0
               [Print (''Waiting while port '' @ str_int port @ '' on '' @ host @ '' is open...'')] =
             Some ([Print (''Waiting while port '' @ str_int port @ '' on '' @ host @ '' is open...'')] @
                   concat (replicate n [Connect host port, Sleep 5]) @ [Connect host port])"
    by (rule poll_loop_first_failure)
  then have run: "socket_wait_main rc host port =
           Some ([Print (''Waiting while port '' @ str_int port @ '' on '' @ host @ '' is open...'')] @
                 concat (replicate n [Connect host port, Sleep 5]) @
                 [Connect host port,
                  Print (''Port '' @ str_int port @ '' on '' @ host @ '' is now closed.'')])"
    by (simp add: socket_wait_main_def wait_while_port_open_def)
  have "sleeps ([Print (''Waiting while port '' @ str_int port @ '' on '' @ host @ '' is open...'')] @
                 concat (replicate n [Connect host port, Sleep 5]) @
                 [Connect host port,
                  Print (''Port '' @ str_int port @ '' on '' @ host @ '' is now closed.'')]) = n"
    unfolding sleeps_append sleeps_rounds by (simp add: sleeps_def)
  with run show ?thesis by simp
qed

text \<open>
  Two successful attempts, then a refused connection: two sleeps.
\<close>

theorem port_waiter_sleeps_once_per_success_witness:
  "socket_wait_main two_then_refused ''10.0.0.7'' 8000 =
     Some [Print ''Waiting while port 8000 on 10.0.0.7 is open...'',
           Connect ''10.0.0.7'' 8000, Sleep 5, Connect ''10.0.0.7'' 8000, Sleep 5,
           Connect ''10.0.0.7'' 8000,
           Print ''Port 8000 on 10.0.0.7 is now closed.'']"
  using port_waiter_sleeps_once_per_success [of 2 two_then_refused "''10.0.0.7''" 8000]
  by (simp add: two_then_refused_def str_int_8000 numeral_2_eq_2)

section \<open>The claim about the exit status\<close>


end
